theory Spec2Isabelle
  imports Main "HOL-Library.Sublist"
begin

section \<open>JavaScript values\<close>

text \<open>
  \<^verbatim>\<open>app.node.tryGetContext\<close> returns \<^verbatim>\<open>any\<close>: a context value comes from the command
  line (a string) or from \<^verbatim>\<open>cdk.json\<close> (any JSON value), and is \<^verbatim>\<open>undefined\<close> when the
  key is not set. \<open>JNum\<close> carries the integers of JSON; \<open>JObj s\<close> is an object or an array,
  which is always truthy, carried with the string \<open>s\<close> that a template literal makes of it.
\<close>

datatype jsval = JUndefined | JNull | JBool bool | JNum int | JStr string | JObj string

text \<open>The truthiness that \<^verbatim>\<open>||\<close> and \<^verbatim>\<open>!\<close> test.\<close>

fun truthy :: "jsval \<Rightarrow> bool" where
  "truthy JUndefined = False"
| "truthy JNull = False"
| "truthy (JBool b) = b"
| "truthy (JNum n) = (n \<noteq> 0)"
| "truthy (JStr s) = (s \<noteq> [])"
| "truthy (JObj s) = True"

text \<open>\<^verbatim>\<open>a || b\<close>: the left operand when it is truthy, the right one otherwise.\<close>

definition js_or :: "jsval \<Rightarrow> jsval \<Rightarrow> jsval" where
  "js_or a b = (if truthy a then a else b)"

text \<open>Decimal digits of a natural number, for the string a template literal makes of a number.\<close>

function show_nat :: "nat \<Rightarrow> string" where
  "show_nat n =
     (if n < 10 then [char_of (48 + n)]
      else show_nat (n div 10) @ [char_of (48 + n mod 10)])"
  by pat_completeness auto
termination
  by (relation "measure (\<lambda>n. n)") auto

text \<open>The string conversion of a template literal \<^verbatim>\<open>`${v}`\<close>.\<close>

fun js_to_string :: "jsval \<Rightarrow> string" where
  "js_to_string JUndefined = ''undefined''"
| "js_to_string JNull = ''null''"
| "js_to_string (JBool b) = (if b then ''true'' else ''false'')"
| "js_to_string (JNum n) = (if n < 0 then ''-'' @ show_nat (nat (- n)) else show_nat (nat n))"
| "js_to_string (JStr s) = s"
| "js_to_string (JObj s) = s"

text \<open>\<^verbatim>\<open>String.prototype.toUpperCase\<close> on ASCII text.\<close>

definition toUpperCase_char :: "char \<Rightarrow> char" where
  "toUpperCase_char c =
     (if (97::nat) \<le> of_char c \<and> of_char c \<le> (122::nat)
      then char_of (of_char c - (32::nat)) else c)"

definition toUpperCase :: "string \<Rightarrow> string" where
  "toUpperCase s = map toUpperCase_char s"


section \<open>Configuration (bin entry point, \<^verbatim>\<open>config\<close>)\<close>

type_synonym cdk_context = "string \<rightharpoonup> jsval"
type_synonym process_env = "string \<rightharpoonup> string"

definition tryGetContext :: "cdk_context \<Rightarrow> string \<Rightarrow> jsval" where
  "tryGetContext ctx key = (case ctx key of None \<Rightarrow> JUndefined | Some v \<Rightarrow> v)"

text \<open>\<^verbatim>\<open>process.env.NAME\<close>: a string, or \<^verbatim>\<open>undefined\<close> when the variable is not set.\<close>

definition getenv :: "process_env \<Rightarrow> string \<Rightarrow> jsval" where
  "getenv penv name = (case penv name of None \<Rightarrow> JUndefined | Some s \<Rightarrow> JStr s)"

record Config =
  dnsAccount :: jsval
  betaAccount :: jsval
  gammaAccount :: jsval
  prodAccount :: jsval
  domainName :: jsval
  region :: jsval

definition config :: "cdk_context \<Rightarrow> process_env \<Rightarrow> Config" where
  "config ctx penv =
     \<lparr> dnsAccount = js_or (tryGetContext ctx ''dnsAccount'') (getenv penv ''DNS_ACCOUNT_ID''),
       betaAccount = js_or (tryGetContext ctx ''betaAccount'') (getenv penv ''BETA_ACCOUNT_ID''),
       gammaAccount = js_or (tryGetContext ctx ''gammaAccount'') (getenv penv ''GAMMA_ACCOUNT_ID''),
       prodAccount = js_or (tryGetContext ctx ''prodAccount'') (getenv penv ''PROD_ACCOUNT_ID''),
       domainName = js_or (tryGetContext ctx ''domainName'') (getenv penv ''DOMAIN_NAME''),
       region = js_or (tryGetContext ctx ''region'') (JStr ''us-east-1'') \<rparr>"

text \<open>\<^verbatim>\<open>config[field]\<close>: the property of that name, \<^verbatim>\<open>undefined\<close> for any other name.\<close>

definition config_get :: "Config \<Rightarrow> string \<Rightarrow> jsval" where
  "config_get c field =
     (if field = ''dnsAccount'' then dnsAccount c
      else if field = ''betaAccount'' then betaAccount c
      else if field = ''gammaAccount'' then gammaAccount c
      else if field = ''prodAccount'' then prodAccount c
      else if field = ''domainName'' then domainName c
      else if field = ''region'' then region c
      else JUndefined)"

definition requiredFields :: "string list" where
  "requiredFields = [''dnsAccount'', ''betaAccount'', ''gammaAccount'', ''prodAccount'', ''domainName'']"

datatype error = Error string

definition missing_message :: "string \<Rightarrow> string" where
  "missing_message field =
     (''Missing required configuration: '' @ field @ ''. '') @
     (''Set via --context '' @ field @ ''=value or environment variable '' @ toUpperCase field)"

text \<open>
  The validation loop \<^verbatim>\<open>for (const field of requiredFields) if (!config[field]) throw ...\<close>:
  \<open>Inl\<close> is the error thrown at the first falsy field, \<open>Inr ()\<close> is falling through the loop.
\<close>

fun validate :: "Config \<Rightarrow> string list \<Rightarrow> error + unit" where
  "validate c [] = Inr ()"
| "validate c (field # rest) =
     (if \<not> truthy (config_get c field) then Inl (Error (missing_message field))
      else validate c rest)"

section \<open>Constructs of the provisioning framework\<close>

text \<open>
  The framework's construct library is not part of the repository. A construct is modelled
  as the record of the arguments the source passes to it, under the id of its scope (the
  stack) and its own id. A value known only at deployment (an attribute of a declared
  resource, such as \<^verbatim>\<open>hostedZone.hostedZoneId\<close>) is the symbolic \<open>Attr scope id name\<close>.
\<close>

datatype cfnval = Val jsval | Attr string string string | FnJoin string cfnval

record Construct =
  scope_id :: string
  node_id :: string

type_synonym construct_ref = "string \<times> string"

definition ref :: "'a Construct_scheme \<Rightarrow> construct_ref" where
  "ref c = (scope_id c, node_id c)"

definition attr :: "'a Construct_scheme \<Rightarrow> string \<Rightarrow> cfnval" where
  "attr c name = Attr (scope_id c) (node_id c) name"

record environment =
  account :: jsval
  region :: jsval

record StackProps =
  env :: environment

datatype RemovalPolicy = DESTROY | RETAIN | SNAPSHOT | RETAIN_ON_UPDATE_OR_DELETE

subsection \<open>Route 53 and IAM\<close>

record PublicHostedZone = Construct +
  zoneName :: jsval
  removalPolicy :: "RemovalPolicy option"

definition applyRemovalPolicy :: "PublicHostedZone \<Rightarrow> RemovalPolicy \<Rightarrow> PublicHostedZone" where
  "applyRemovalPolicy z p = z\<lparr> PublicHostedZone.removalPolicy := Some p \<rparr>"

datatype principal = AccountPrincipal jsval | CompositePrincipal "principal list"

text \<open>The principals a principal stands for: the members of a composite, or itself.\<close>

fun principals :: "principal \<Rightarrow> principal list" where
  "principals (CompositePrincipal ps) = ps"
| "principals (AccountPrincipal a) = [AccountPrincipal a]"

datatype Effect = ALLOW | DENY

record PolicyStatement =
  effect :: Effect
  actions :: "string list"
  resources :: "cfnval list"

record Role = Construct +
  roleName :: string
  assumedBy :: principal
  description :: string
  policy :: "PolicyStatement list"

definition addToPolicy :: "Role \<Rightarrow> PolicyStatement \<Rightarrow> Role" where
  "addToPolicy r s = r\<lparr> policy := policy r @ [s] \<rparr>"

record CfnOutput = Construct +
  "value" :: cfnval
  description :: string
  exportName :: "string option"

subsection \<open>S3, certificates, CloudFront\<close>

datatype BlockPublicAccess = BLOCK_ALL | BLOCK_ACLS

record Bucket = Construct +
  bucketName :: string
  websiteIndexDocument :: string
  publicReadAccess :: bool
  blockPublicAccess :: BlockPublicAccess
  removalPolicy :: RemovalPolicy
  autoDeleteObjects :: bool
  readGrants :: "construct_ref list"

text \<open>\<^verbatim>\<open>bucket.grantRead(grantee)\<close> records the grantee on the bucket.\<close>

definition grantRead :: "Bucket \<Rightarrow> 'a Construct_scheme \<Rightarrow> Bucket" where
  "grantRead b grantee = b\<lparr> readGrants := readGrants b @ [ref grantee] \<rparr>"

text \<open>\<^verbatim>\<open>HostedZone.fromHostedZoneAttributes\<close>: a reference to a zone declared elsewhere.\<close>

record ImportedHostedZone = Construct +
  hostedZoneId :: cfnval
  zoneName :: jsval

datatype CertificateValidation = fromDns construct_ref

record Certificate = Construct +
  domainName :: jsval
  validation :: CertificateValidation

record OriginAccessIdentity = Construct +
  comment :: string

datatype ViewerProtocolPolicy = HTTPS_ONLY | REDIRECT_TO_HTTPS | ALLOW_ALL

datatype CachePolicy = CACHING_OPTIMIZED | CACHING_DISABLED

record S3Origin =
  origin_bucket :: construct_ref
  originAccessIdentity :: construct_ref

record BehaviorOptions =
  origin :: S3Origin
  viewerProtocolPolicy :: ViewerProtocolPolicy
  cachePolicy :: CachePolicy

record ErrorResponse =
  httpStatus :: nat
  responseHttpStatus :: nat
  responsePagePath :: string

record Distribution = Construct +
  defaultBehavior :: BehaviorOptions
  domainNames :: "jsval list"
  certificate :: construct_ref
  defaultRootObject :: string
  errorResponses :: "ErrorResponse list"

datatype AliasTarget = CloudFrontTarget construct_ref

datatype RecordTarget = fromAlias AliasTarget

record ARecord = Construct +
  zone :: construct_ref
  recordName :: jsval
  target :: RecordTarget

text \<open>\<^verbatim>\<open>Source.asset(path.resolve(__dirname, p))\<close> is carried as the relative path \<open>p\<close>.\<close>

datatype Source = asset string

record BucketDeployment = Construct +
  sources :: "Source list"
  destinationBucket :: construct_ref
  distribution :: construct_ref
  distributionPaths :: "string list"

subsection \<open>Stacks\<close>

datatype construct =
    CPublicHostedZone PublicHostedZone
  | CRole Role
  | CCfnOutput CfnOutput
  | CBucket Bucket
  | CImportedHostedZone ImportedHostedZone
  | CCertificate Certificate
  | COriginAccessIdentity OriginAccessIdentity
  | CDistribution Distribution
  | CARecord ARecord
  | CBucketDeployment BucketDeployment

text \<open>
  A stack: its id, the environment of its props, the constructs declared in its scope in
  the order of the \<^verbatim>\<open>new\<close> expressions of its constructor, and the ids of the stacks it was
  made to depend on.
\<close>

record Stack =
  stack_id :: string
  stack_env :: environment
  children :: "construct list"
  dependencies :: "string list"

text \<open>\<^verbatim>\<open>this.stackName\<close> of a stack that is given no name is made from its id.\<close>

definition stackName :: "'a Stack_scheme \<Rightarrow> string" where
  "stackName s = stack_id s"

text \<open>
  \<^verbatim>\<open>this.account\<close>: the account of the stack's environment, or the deployment's account
  (a token) when the environment names none.
\<close>

definition stack_account :: "environment \<Rightarrow> jsval" where
  "stack_account e =
     (if account e = JUndefined \<or> account e = JNull then JObj ''${Token[AWS.AccountId]}''
      else account e)"

definition addDependency :: "'a Stack_scheme \<Rightarrow> 'b Stack_scheme \<Rightarrow> 'a Stack_scheme" where
  "addDependency s t = s\<lparr> dependencies := dependencies s @ [stack_id t] \<rparr>"

fun outputs :: "construct list \<Rightarrow> CfnOutput list" where
  "outputs [] = []"
| "outputs (CCfnOutput x # cs) = x # outputs cs"
| "outputs (_ # cs) = outputs cs"

section \<open>The DNS stack (\<^verbatim>\<open>lib/dns-stack.ts\<close>)\<close>

record DnsStackProps = StackProps +
  domainName :: jsval
  trustedAccountIds :: "jsval list"

record DnsStack = Stack +
  hostedZone :: PublicHostedZone
  crossAccountRole :: Role

text \<open>
  The constructor, statement by statement. The zone is created by the stack, so its name
  servers are defined and \<^verbatim>\<open>hostedZoneNameServers || []\<close> is the zone's attribute.
\<close>

definition new_DnsStack :: "string \<Rightarrow> DnsStackProps \<Rightarrow> DnsStack" where
  "new_DnsStack sid props =
     (let this = \<lparr> stack_id = sid, stack_env = env props, children = [], dependencies = [] \<rparr>;
          zone0 = \<lparr> scope_id = sid, node_id = ''RootHostedZone'',
                    PublicHostedZone.zoneName = DnsStackProps.domainName props,
                    PublicHostedZone.removalPolicy = None \<rparr>;
          zone1 = applyRemovalPolicy zone0 RETAIN_ON_UPDATE_OR_DELETE;
          role0 = \<lparr> scope_id = sid, node_id = ''CrossAccountDnsRole'',
                    roleName = ''CrossAccountDnsManagementRole'',
                    assumedBy = CompositePrincipal (map AccountPrincipal (trustedAccountIds props)),
                    Role.description = ''Role allowing cross-account DNS record management'',
                    policy = [] \<rparr>;
          role1 = addToPolicy role0
                    \<lparr> effect = ALLOW,
                      actions = [''route53:ChangeResourceRecordSets'', ''route53:GetChange'',
                                 ''route53:ListResourceRecordSets''],
                      resources = [attr zone1 ''hostedZoneArn'',
                                   Val (JStr ''arn:aws:route53:::change/*'')] \<rparr>;
          role2 = addToPolicy role1
                    \<lparr> effect = ALLOW,
                      actions = [''route53:GetHostedZone'', ''route53:ListHostedZones''],
                      resources = [Val (JStr ''*'')] \<rparr>;
          out1 = \<lparr> scope_id = sid, node_id = ''HostedZoneId'',
                   value = attr zone1 ''hostedZoneId'',
                   CfnOutput.description = ''Hosted Zone ID'',
                   exportName = Some (stackName this @ ''-HostedZoneId'') \<rparr>;
          out2 = \<lparr> scope_id = sid, node_id = ''HostedZoneName'',
                   value = Val (PublicHostedZone.zoneName zone1),
                   CfnOutput.description = ''Hosted Zone Name'',
                   exportName = Some (stackName this @ ''-HostedZoneName'') \<rparr>;
          out3 = \<lparr> scope_id = sid, node_id = ''CrossAccountRoleArn'',
                   value = attr role2 ''roleArn'',
                   CfnOutput.description = ''ARN of the cross-account DNS management role'',
                   exportName = Some (stackName this @ ''-CrossAccountRoleArn'') \<rparr>;
          out4 = \<lparr> scope_id = sid, node_id = ''NameServers'',
                   value = FnJoin '', '' (attr zone1 ''hostedZoneNameServers''),
                   CfnOutput.description = ''Name servers for the hosted zone'',
                   exportName = None \<rparr>
      in \<lparr> stack_id = sid, stack_env = env props,
           children = [CPublicHostedZone zone1, CRole role2,
                       CCfnOutput out1, CCfnOutput out2, CCfnOutput out3, CCfnOutput out4],
           dependencies = [],
           hostedZone = zone1, crossAccountRole = role2 \<rparr>)"


section \<open>The static website stack (\<^verbatim>\<open>lib/static-website-stack.ts\<close>)\<close>

record StaticWebsiteStackProps = StackProps +
  domainName :: jsval
  hostedZoneId :: cfnval
  hostedZoneName :: jsval
  crossAccountRoleArn :: cfnval
  stageName :: string

record StaticWebsiteStack = Stack +
  bucket :: Bucket
  distribution :: Distribution

definition new_StaticWebsiteStack :: "string \<Rightarrow> StaticWebsiteStackProps \<Rightarrow> StaticWebsiteStack" where
  "new_StaticWebsiteStack sid props =
     (let bucket0 = \<lparr> scope_id = sid, node_id = ''SiteBucket'',
                      bucketName = stageName props @ ''-website-'' @
                                   js_to_string (stack_account (env props)),
                      websiteIndexDocument = ''index.html'',
                      publicReadAccess = False,
                      blockPublicAccess = BLOCK_ALL,
                      Bucket.removalPolicy = DESTROY,
                      autoDeleteObjects = True,
                      readGrants = [] \<rparr>;
          zone = \<lparr> scope_id = sid, node_id = ''HostedZone'',
                   ImportedHostedZone.hostedZoneId = StaticWebsiteStackProps.hostedZoneId props,
                   ImportedHostedZone.zoneName = hostedZoneName props \<rparr>;
          cert = \<lparr> scope_id = sid, node_id = ''Certificate'',
                   Certificate.domainName = StaticWebsiteStackProps.domainName props,
                   validation = fromDns (ref zone) \<rparr>;
          oai = \<lparr> scope_id = sid, node_id = ''OAI'',
                  comment = ''OAI for '' @ js_to_string (StaticWebsiteStackProps.domainName props) \<rparr>;
          bucket1 = grantRead bucket0 oai;
          dist = \<lparr> scope_id = sid, node_id = ''Distribution'',
                   defaultBehavior =
                     \<lparr> origin = \<lparr> origin_bucket = ref bucket1, originAccessIdentity = ref oai \<rparr>,
                       viewerProtocolPolicy = REDIRECT_TO_HTTPS,
                       cachePolicy = CACHING_OPTIMIZED \<rparr>,
                   domainNames = [StaticWebsiteStackProps.domainName props],
                   certificate = ref cert,
                   defaultRootObject = ''index.html'',
                   errorResponses =
                     [\<lparr> httpStatus = 404, responseHttpStatus = 404,
                        responsePagePath = ''/error.html'' \<rparr>,
                      \<lparr> httpStatus = 403, responseHttpStatus = 403,
                        responsePagePath = ''/error.html'' \<rparr>] \<rparr>;
          alias = \<lparr> scope_id = sid, node_id = ''AliasRecord'',
                    zone = ref zone,
                    recordName = StaticWebsiteStackProps.domainName props,
                    target = fromAlias (CloudFrontTarget (ref dist)) \<rparr>;
          deployment = \<lparr> scope_id = sid, node_id = ''WebsiteDeployment'',
                         sources = [asset ''../../../clhaskellelectric.com/dist''],
                         destinationBucket = ref bucket1,
                         BucketDeployment.distribution = ref dist,
                         distributionPaths = [''/*''] \<rparr>;
          out1 = \<lparr> scope_id = sid, node_id = ''BucketName'',
                   value = attr bucket1 ''bucketName'',
                   CfnOutput.description = ''S3 Bucket Name'', exportName = None \<rparr>;
          out2 = \<lparr> scope_id = sid, node_id = ''DistributionId'',
                   value = attr dist ''distributionId'',
                   CfnOutput.description = ''CloudFront Distribution ID'', exportName = None \<rparr>;
          out3 = \<lparr> scope_id = sid, node_id = ''DistributionDomainName'',
                   value = attr dist ''distributionDomainName'',
                   CfnOutput.description = ''CloudFront Distribution Domain Name'',
                   exportName = None \<rparr>;
          out4 = \<lparr> scope_id = sid, node_id = ''WebsiteUrl'',
                   value = Val (JStr (''https://'' @
                                 js_to_string (StaticWebsiteStackProps.domainName props))),
                   CfnOutput.description = ''Website URL'', exportName = None \<rparr>
      in \<lparr> stack_id = sid, stack_env = env props,
           children = [CBucket bucket1, CImportedHostedZone zone, CCertificate cert,
                       COriginAccessIdentity oai, CDistribution dist, CARecord alias,
                       CBucketDeployment deployment,
                       CCfnOutput out1, CCfnOutput out2, CCfnOutput out3, CCfnOutput out4],
           dependencies = [],
           bucket = bucket1, StaticWebsiteStack.distribution = dist \<rparr>)"


section \<open>The app (bin entry point)\<close>

datatype stack = SDns DnsStack | SSite StaticWebsiteStack

text \<open>
  The app: the stacks constructed in its scope, in order, and whether \<^verbatim>\<open>app.synth()\<close>
  has been called.
\<close>

record App =
  stacks :: "stack list"
  synthesized :: bool

definition dnsStackProps :: "Config \<Rightarrow> DnsStackProps" where
  "dnsStackProps c =
     \<lparr> env = \<lparr> account = dnsAccount c, environment.region = Config.region c \<rparr>,
       DnsStackProps.domainName = Config.domainName c,
       trustedAccountIds = [betaAccount c, gammaAccount c, prodAccount c] \<rparr>"

definition betaStackProps :: "Config \<Rightarrow> DnsStack \<Rightarrow> StaticWebsiteStackProps" where
  "betaStackProps c dnsStack =
     \<lparr> env = \<lparr> account = betaAccount c, environment.region = Config.region c \<rparr>,
       StaticWebsiteStackProps.domainName = JStr (''beta.'' @ js_to_string (Config.domainName c)),
       StaticWebsiteStackProps.hostedZoneId = attr (hostedZone dnsStack) ''hostedZoneId'',
       hostedZoneName = Config.domainName c,
       crossAccountRoleArn = attr (crossAccountRole dnsStack) ''roleArn'',
       stageName = ''beta'' \<rparr>"

definition gammaStackProps :: "Config \<Rightarrow> DnsStack \<Rightarrow> StaticWebsiteStackProps" where
  "gammaStackProps c dnsStack =
     \<lparr> env = \<lparr> account = gammaAccount c, environment.region = Config.region c \<rparr>,
       StaticWebsiteStackProps.domainName = JStr (''gamma.'' @ js_to_string (Config.domainName c)),
       StaticWebsiteStackProps.hostedZoneId = attr (hostedZone dnsStack) ''hostedZoneId'',
       hostedZoneName = Config.domainName c,
       crossAccountRoleArn = attr (crossAccountRole dnsStack) ''roleArn'',
       stageName = ''gamma'' \<rparr>"

definition prodStackProps :: "Config \<Rightarrow> DnsStack \<Rightarrow> StaticWebsiteStackProps" where
  "prodStackProps c dnsStack =
     \<lparr> env = \<lparr> account = prodAccount c, environment.region = Config.region c \<rparr>,
       StaticWebsiteStackProps.domainName = Config.domainName c,
       StaticWebsiteStackProps.hostedZoneId = attr (hostedZone dnsStack) ''hostedZoneId'',
       hostedZoneName = Config.domainName c,
       crossAccountRoleArn = attr (crossAccountRole dnsStack) ''roleArn'',
       stageName = ''prod'' \<rparr>"

text \<open>
  The calls the program makes on stacks, with their arguments: the constructor calls with
  the id and the props passed, \<^verbatim>\<open>a.addDependency(b)\<close> with the ids of the two stacks, and
  \<^verbatim>\<open>app.synth()\<close>.
\<close>

datatype call =
    NewDnsStack string DnsStackProps
  | NewStaticWebsiteStack string StaticWebsiteStackProps
  | AddDependency string string
  | Synth

text \<open>
  A run of the program: the error thrown, if any, the app as it is when the program stops,
  and the calls made on stacks up to then, in order. The checks the framework's own
  constructors and \<^verbatim>\<open>synth\<close> make are outside the repository and are not modelled.
\<close>

record outcome =
  thrown :: "error option"
  app :: App
  calls :: "call list"

definition main :: "cdk_context \<Rightarrow> process_env \<Rightarrow> outcome" where
  "main ctx penv =
     (let app0 = \<lparr> stacks = [], synthesized = False \<rparr>;
          c = config ctx penv
      in case validate c requiredFields of
           Inl e \<Rightarrow> \<lparr> thrown = Some e, app = app0, calls = [] \<rparr>
         | Inr _ \<Rightarrow>
             (let dnsProps = dnsStackProps c;
                  dnsStack = new_DnsStack ''DnsStack'' dnsProps;
                  betaProps = betaStackProps c dnsStack;
                  betaStack0 = new_StaticWebsiteStack ''BetaStaticWebsiteStack'' betaProps;
                  gammaProps = gammaStackProps c dnsStack;
                  gammaStack0 = new_StaticWebsiteStack ''GammaStaticWebsiteStack'' gammaProps;
                  prodProps = prodStackProps c dnsStack;
                  prodStack0 = new_StaticWebsiteStack ''ProdStaticWebsiteStack'' prodProps;
                  betaStack = addDependency betaStack0 dnsStack;
                  gammaStack = addDependency gammaStack0 dnsStack;
                  prodStack = addDependency prodStack0 dnsStack;
                  app1 = app0\<lparr> stacks := [SDns dnsStack, SSite betaStack, SSite gammaStack,
                                           SSite prodStack] \<rparr>
              in \<lparr> thrown = None, app = app1\<lparr> synthesized := True \<rparr>,
                   calls = [NewDnsStack ''DnsStack'' dnsProps,
                            NewStaticWebsiteStack ''BetaStaticWebsiteStack'' betaProps,
                            NewStaticWebsiteStack ''GammaStaticWebsiteStack'' gammaProps,
                            NewStaticWebsiteStack ''ProdStaticWebsiteStack'' prodProps,
                            AddDependency (stack_id betaStack0) (stack_id dnsStack),
                            AddDependency (stack_id gammaStack0) (stack_id dnsStack),
                            AddDependency (stack_id prodStack0) (stack_id dnsStack),
                            Synth] \<rparr>))"

section \<open>Reading a run\<close>

text \<open>
  The environment variable the configuration falls back to for each required field
  (the pairs of the \<^verbatim>\<open>config\<close> object literal).
\<close>

definition env_name :: "string \<Rightarrow> string" where
  "env_name field =
     (if field = ''dnsAccount'' then ''DNS_ACCOUNT_ID''
      else if field = ''betaAccount'' then ''BETA_ACCOUNT_ID''
      else if field = ''gammaAccount'' then ''GAMMA_ACCOUNT_ID''
      else if field = ''prodAccount'' then ''PROD_ACCOUNT_ID''
      else if field = ''domainName'' then ''DOMAIN_NAME''
      else [])"

text \<open>
  The kind of resource a construct declares. An output and an imported hosted zone declare
  no resource.
\<close>

datatype resource_kind =
    HostedZoneKind | RoleKind | BucketKind | CertificateKind | OriginAccessIdentityKind
  | DistributionKind | AliasRecordKind | BucketDeploymentKind

fun kind_of :: "construct \<Rightarrow> resource_kind option" where
  "kind_of (CPublicHostedZone z) = Some HostedZoneKind"
| "kind_of (CRole r) = Some RoleKind"
| "kind_of (CCfnOutput x) = None"
| "kind_of (CBucket b) = Some BucketKind"
| "kind_of (CImportedHostedZone z) = None"
| "kind_of (CCertificate c) = Some CertificateKind"
| "kind_of (COriginAccessIdentity i) = Some OriginAccessIdentityKind"
| "kind_of (CDistribution d) = Some DistributionKind"
| "kind_of (CARecord r) = Some AliasRecordKind"
| "kind_of (CBucketDeployment d) = Some BucketDeploymentKind"

fun stack_children :: "stack \<Rightarrow> construct list" where
  "stack_children (SDns s) = children s"
| "stack_children (SSite s) = children s"

definition declared_kinds :: "stack \<Rightarrow> resource_kind list" where
  "declared_kinds s = List.map_filter kind_of (stack_children s)"

definition app_kinds :: "App \<Rightarrow> resource_kind set" where
  "app_kinds a = set (concat (map declared_kinds (stacks a)))"

text \<open>The outputs of a stack: the id and the value of each \<^verbatim>\<open>CfnOutput\<close>, in order.\<close>

definition stack_outputs :: "stack \<Rightarrow> (string \<times> cfnval) list" where
  "stack_outputs s = map (\<lambda>x. (node_id x, value x)) (outputs (stack_children s))"


fun siteStacks :: "stack list \<Rightarrow> StaticWebsiteStack list" where
  "siteStacks [] = []"
| "siteStacks (SSite s # ss) = s # siteStacks ss"
| "siteStacks (SDns s # ss) = siteStacks ss"

fun dnsStacks :: "stack list \<Rightarrow> DnsStack list" where
  "dnsStacks [] = []"
| "dnsStacks (SDns s # ss) = s # dnsStacks ss"
| "dnsStacks (SSite s # ss) = dnsStacks ss"

fun zones :: "construct list \<Rightarrow> PublicHostedZone list" where
  "zones [] = []"
| "zones (CPublicHostedZone z # cs) = z # zones cs"
| "zones (_ # cs) = zones cs"

fun buckets :: "construct list \<Rightarrow> Bucket list" where
  "buckets [] = []"
| "buckets (CBucket b # cs) = b # buckets cs"
| "buckets (_ # cs) = buckets cs"

fun identities :: "construct list \<Rightarrow> OriginAccessIdentity list" where
  "identities [] = []"
| "identities (COriginAccessIdentity i # cs) = i # identities cs"
| "identities (_ # cs) = identities cs"

fun distributions :: "construct list \<Rightarrow> Distribution list" where
  "distributions [] = []"
| "distributions (CDistribution d # cs) = d # distributions cs"
| "distributions (_ # cs) = distributions cs"

fun roles :: "construct list \<Rightarrow> Role list" where
  "roles [] = []"
| "roles (CRole r # cs) = r # roles cs"
| "roles (_ # cs) = roles cs"

fun importedZones :: "construct list \<Rightarrow> ImportedHostedZone list" where
  "importedZones [] = []"
| "importedZones (CImportedHostedZone z # cs) = z # importedZones cs"
| "importedZones (_ # cs) = importedZones cs"

fun certificates :: "construct list \<Rightarrow> Certificate list" where
  "certificates [] = []"
| "certificates (CCertificate c # cs) = c # certificates cs"
| "certificates (_ # cs) = certificates cs"

fun records :: "construct list \<Rightarrow> ARecord list" where
  "records [] = []"
| "records (CARecord r # cs) = r # records cs"
| "records (_ # cs) = records cs"

fun deployments :: "construct list \<Rightarrow> BucketDeployment list" where
  "deployments [] = []"
| "deployments (CBucketDeployment d # cs) = d # deployments cs"
| "deployments (_ # cs) = deployments cs"

text \<open>
  The constructs of a stack that its declarations hand a bucket to: the grantees of
  \<^verbatim>\<open>grantRead\<close>, and every bucket deployment declared with the bucket as its
  \<^verbatim>\<open>destinationBucket\<close>, which copies the site's files into the bucket.
\<close>

definition bucket_accessors :: "construct list \<Rightarrow> Bucket \<Rightarrow> construct_ref list" where
  "bucket_accessors cs b =
     readGrants b @ map ref (filter (\<lambda>d. destinationBucket d = ref b) (deployments cs))"

text \<open>The website stacks the program constructed, each with the props it was given.\<close>

fun site_calls :: "call list \<Rightarrow> (string \<times> StaticWebsiteStackProps) list" where
  "site_calls [] = []"
| "site_calls (NewStaticWebsiteStack sid p # cs) = (sid, p) # site_calls cs"
| "site_calls (_ # cs) = site_calls cs"


text \<open>A configuration in which every required value is set, for the example runs.\<close>

definition example_context :: cdk_context where
  "example_context = [''domainName'' \<mapsto> JStr ''example.com'']"

definition example_env :: process_env where
  "example_env =
     [''DNS_ACCOUNT_ID'' \<mapsto> ''111111111111'', ''BETA_ACCOUNT_ID'' \<mapsto> ''222222222222'',
      ''GAMMA_ACCOUNT_ID'' \<mapsto> ''333333333333'', ''PROD_ACCOUNT_ID'' \<mapsto> ''444444444444'']"

section \<open>Facts about the validation loop and the run\<close>

lemma validate_required:
  "validate c requiredFields =
     (if \<not> truthy (dnsAccount c) then Inl (Error (missing_message ''dnsAccount''))
      else if \<not> truthy (betaAccount c) then Inl (Error (missing_message ''betaAccount''))
      else if \<not> truthy (gammaAccount c) then Inl (Error (missing_message ''gammaAccount''))
      else if \<not> truthy (prodAccount c) then Inl (Error (missing_message ''prodAccount''))
      else if \<not> truthy (Config.domainName c) then Inl (Error (missing_message ''domainName''))
      else Inr ())"
  by (simp add: requiredFields_def config_get_def)

lemma validate_find:
  "validate c fs =
     (case List.find (\<lambda>f. \<not> truthy (config_get c f)) fs of
        None \<Rightarrow> Inr () | Some g \<Rightarrow> Inl (Error (missing_message g)))"
  by (induction fs) simp_all

lemma sublist_missing_message: "sublist f (missing_message f)"
  unfolding missing_message_def sublist_def by (metis append.assoc)

lemma main_thrown:
  "thrown (main ctx penv) =
     (case validate (config ctx penv) requiredFields of Inl e \<Rightarrow> Some e | Inr u \<Rightarrow> None)"
  by (simp add: main_def Let_def split: sum.split)

lemma thrown_None_iff:
  "(thrown (main ctx penv) = None) = (validate (config ctx penv) requiredFields = Inr ())"
  by (simp add: main_thrown split: sum.split)

lemma main_app_thrown:
  "validate (config ctx penv) requiredFields = Inl e \<Longrightarrow>
     app (main ctx penv) = \<lparr> stacks = [], synthesized = False \<rparr>"
  by (simp add: main_def Let_def)

lemma main_app_ok:
  "validate (config ctx penv) requiredFields = Inr u \<Longrightarrow>
     app (main ctx penv) =
       \<lparr> stacks =
           [SDns (new_DnsStack ''DnsStack'' (dnsStackProps (config ctx penv))),
            SSite (addDependency
                     (new_StaticWebsiteStack ''BetaStaticWebsiteStack''
                        (betaStackProps (config ctx penv)
                           (new_DnsStack ''DnsStack'' (dnsStackProps (config ctx penv)))))
                     (new_DnsStack ''DnsStack'' (dnsStackProps (config ctx penv)))),
            SSite (addDependency
                     (new_StaticWebsiteStack ''GammaStaticWebsiteStack''
                        (gammaStackProps (config ctx penv)
                           (new_DnsStack ''DnsStack'' (dnsStackProps (config ctx penv)))))
                     (new_DnsStack ''DnsStack'' (dnsStackProps (config ctx penv)))),
            SSite (addDependency
                     (new_StaticWebsiteStack ''ProdStaticWebsiteStack''
                        (prodStackProps (config ctx penv)
                           (new_DnsStack ''DnsStack'' (dnsStackProps (config ctx penv)))))
                     (new_DnsStack ''DnsStack'' (dnsStackProps (config ctx penv))))],
         synthesized = True \<rparr>"
  by (simp add: main_def Let_def)

lemma site_fields [simp]:
  "stack_id (new_StaticWebsiteStack sid p) = sid"
  "dependencies (new_StaticWebsiteStack sid p) = []"
  "readGrants (bucket (new_StaticWebsiteStack sid p)) = [(sid, ''OAI'')]"
  "publicReadAccess (bucket (new_StaticWebsiteStack sid p)) = False"
  "blockPublicAccess (bucket (new_StaticWebsiteStack sid p)) = BLOCK_ALL"
  "Bucket.removalPolicy (bucket (new_StaticWebsiteStack sid p)) = DESTROY"
  "autoDeleteObjects (bucket (new_StaticWebsiteStack sid p)) = True"
  "viewerProtocolPolicy (defaultBehavior (StaticWebsiteStack.distribution (new_StaticWebsiteStack sid p))) = REDIRECT_TO_HTTPS"
  "originAccessIdentity (origin (defaultBehavior (StaticWebsiteStack.distribution (new_StaticWebsiteStack sid p)))) = (sid, ''OAI'')"
  "origin_bucket (origin (defaultBehavior (StaticWebsiteStack.distribution (new_StaticWebsiteStack sid p)))) = (sid, ''SiteBucket'')"
  "domainNames (StaticWebsiteStack.distribution (new_StaticWebsiteStack sid p)) = [StaticWebsiteStackProps.domainName p]"
  by (simp_all add: new_StaticWebsiteStack_def Let_def grantRead_def ref_def)

lemma site_children_obs:
  "buckets (children (new_StaticWebsiteStack sid p)) = [bucket (new_StaticWebsiteStack sid p)]"
  "distributions (children (new_StaticWebsiteStack sid p)) = [StaticWebsiteStack.distribution (new_StaticWebsiteStack sid p)]"
  "map ref (identities (children (new_StaticWebsiteStack sid p))) = [(sid, ''OAI'')]"
  "List.map_filter kind_of (children (new_StaticWebsiteStack sid p)) =
     [BucketKind, CertificateKind, OriginAccessIdentityKind, DistributionKind, AliasRecordKind, BucketDeploymentKind]"
  "map (\<lambda>x. (node_id x, value x)) (outputs (children (new_StaticWebsiteStack sid p))) =
     [(''BucketName'', attr (bucket (new_StaticWebsiteStack sid p)) ''bucketName''),
      (''DistributionId'', attr (StaticWebsiteStack.distribution (new_StaticWebsiteStack sid p)) ''distributionId''),
      (''DistributionDomainName'', attr (StaticWebsiteStack.distribution (new_StaticWebsiteStack sid p)) ''distributionDomainName''),
      (''WebsiteUrl'', Val (JStr (''https://'' @ js_to_string (StaticWebsiteStackProps.domainName p))))]"
  by (simp_all add: new_StaticWebsiteStack_def Let_def grantRead_def ref_def attr_def List.map_filter_def)

lemma dns_fields [simp]:
  "stack_id (new_DnsStack sid p) = sid"
  "PublicHostedZone.removalPolicy (hostedZone (new_DnsStack sid p)) = Some RETAIN_ON_UPDATE_OR_DELETE"
  "assumedBy (crossAccountRole (new_DnsStack sid p)) = CompositePrincipal (map AccountPrincipal (trustedAccountIds p))"
  "PublicHostedZone.zoneName (hostedZone (new_DnsStack sid p)) = DnsStackProps.domainName p"
  by (simp_all add: new_DnsStack_def Let_def applyRemovalPolicy_def addToPolicy_def)

lemma dns_children_obs:
  "zones (children (new_DnsStack sid p)) = [hostedZone (new_DnsStack sid p)]"
  "List.map_filter kind_of (children (new_DnsStack sid p)) = [HostedZoneKind, RoleKind]"
  "map (\<lambda>x. (node_id x, value x)) (outputs (children (new_DnsStack sid p))) =
     [(''HostedZoneId'', attr (hostedZone (new_DnsStack sid p)) ''hostedZoneId''),
      (''HostedZoneName'', Val (DnsStackProps.domainName p)),
      (''CrossAccountRoleArn'', attr (crossAccountRole (new_DnsStack sid p)) ''roleArn''),
      (''NameServers'', FnJoin '', '' (attr (hostedZone (new_DnsStack sid p)) ''hostedZoneNameServers''))]"
  by (simp_all add: new_DnsStack_def Let_def applyRemovalPolicy_def addToPolicy_def attr_def List.map_filter_def)

lemma addDependency_fields [simp]:
  "stack_id (addDependency s t) = stack_id s"
  "children (addDependency s t) = children s"
  "dependencies (addDependency s t) = dependencies s @ [stack_id t]"
  "bucket (addDependency s t) = bucket s"
  "StaticWebsiteStack.distribution (addDependency s t) = StaticWebsiteStack.distribution s"
  by (simp_all add: addDependency_def)

lemma config_get_required:
  "field \<in> set requiredFields \<Longrightarrow>
     config_get (config ctx penv) field =
       js_or (tryGetContext ctx field) (getenv penv (env_name field))"
  by (auto simp: requiredFields_def config_get_def config_def env_name_def)

lemma find_first_absent:
  "field \<in> set fs \<Longrightarrow> \<not> truthy (config_get c field) \<Longrightarrow>
     \<exists>g. List.find (\<lambda>f. \<not> truthy (config_get c f)) fs = Some g \<and>
         (list_all (\<lambda>f. truthy (config_get c f)) (takeWhile (\<lambda>f. f \<noteq> field) fs) \<longrightarrow> g = field)"
  by (induction fs) auto


lemma example_run_ok:
  "validate (config [''domainName'' \<mapsto> JStr ''example.com'']
       [''DNS_ACCOUNT_ID'' \<mapsto> ''111111111111'', ''BETA_ACCOUNT_ID'' \<mapsto> ''222222222222'',
        ''GAMMA_ACCOUNT_ID'' \<mapsto> ''333333333333'', ''PROD_ACCOUNT_ID'' \<mapsto> ''444444444444''])
     requiredFields = Inr ()"
  by (simp add: validate_required config_def js_or_def tryGetContext_def getenv_def)

lemma stacks_ok:
  "thrown (main ctx penv) = None \<Longrightarrow>
     stacks (app (main ctx penv)) =
           [SDns (new_DnsStack ''DnsStack'' (dnsStackProps (config ctx penv))),
            SSite (addDependency
                     (new_StaticWebsiteStack ''BetaStaticWebsiteStack''
                        (betaStackProps (config ctx penv)
                           (new_DnsStack ''DnsStack'' (dnsStackProps (config ctx penv)))))
                     (new_DnsStack ''DnsStack'' (dnsStackProps (config ctx penv)))),
            SSite (addDependency
                     (new_StaticWebsiteStack ''GammaStaticWebsiteStack''
                        (gammaStackProps (config ctx penv)
                           (new_DnsStack ''DnsStack'' (dnsStackProps (config ctx penv)))))
                     (new_DnsStack ''DnsStack'' (dnsStackProps (config ctx penv)))),
            SSite (addDependency
                     (new_StaticWebsiteStack ''ProdStaticWebsiteStack''
                        (prodStackProps (config ctx penv)
                           (new_DnsStack ''DnsStack'' (dnsStackProps (config ctx penv)))))
                     (new_DnsStack ''DnsStack'' (dnsStackProps (config ctx penv))))]"
  by (simp add: thrown_None_iff main_app_ok)

lemma site_stacks_cases:
  "s \<in> set (siteStacks (stacks (app (main ctx penv)))) \<Longrightarrow>
     \<exists>sid p (t::DnsStack). s = addDependency (new_StaticWebsiteStack sid p) t"
proof (cases "validate (config ctx penv) requiredFields")
  case (Inl e)
  assume "s \<in> set (siteStacks (stacks (app (main ctx penv))))"
  then show ?thesis by (simp add: main_app_thrown [OF Inl])
next
  case (Inr u)
  assume "s \<in> set (siteStacks (stacks (app (main ctx penv))))"
  then show ?thesis unfolding main_app_ok [OF Inr] by (simp, blast)
qed

lemma dns_stacks_cases:
  "d \<in> set (dnsStacks (stacks (app (main ctx penv)))) \<Longrightarrow>
     \<exists>sid p. d = new_DnsStack sid p"
proof (cases "validate (config ctx penv) requiredFields")
  case (Inl e)
  assume "d \<in> set (dnsStacks (stacks (app (main ctx penv))))"
  then show ?thesis by (simp add: main_app_thrown [OF Inl])
next
  case (Inr u)
  assume "d \<in> set (dnsStacks (stacks (app (main ctx penv))))"
  then show ?thesis unfolding main_app_ok [OF Inr] by (simp, blast)
qed

lemma example_config:
  "config example_context example_env =
     \<lparr> dnsAccount = JStr ''111111111111'', betaAccount = JStr ''222222222222'',
       gammaAccount = JStr ''333333333333'', prodAccount = JStr ''444444444444'',
       Config.domainName = JStr ''example.com'', Config.region = JStr ''us-east-1'' \<rparr>"
  by (simp add: config_def js_or_def tryGetContext_def getenv_def example_context_def example_env_def)

lemma example_thrown: "thrown (main example_context example_env) = None"
  by (simp add: thrown_None_iff validate_required example_config)

lemma props_wiring [simp]:
  "StaticWebsiteStackProps.hostedZoneId (betaStackProps c d) = attr (hostedZone d) ''hostedZoneId''"
  "StaticWebsiteStackProps.hostedZoneId (gammaStackProps c d) = attr (hostedZone d) ''hostedZoneId''"
  "StaticWebsiteStackProps.hostedZoneId (prodStackProps c d) = attr (hostedZone d) ''hostedZoneId''"
  "crossAccountRoleArn (betaStackProps c d) = attr (crossAccountRole d) ''roleArn''"
  "crossAccountRoleArn (gammaStackProps c d) = attr (crossAccountRole d) ''roleArn''"
  "crossAccountRoleArn (prodStackProps c d) = attr (crossAccountRole d) ''roleArn''"
  "StaticWebsiteStackProps.domainName (betaStackProps c d) = JStr (''beta.'' @ js_to_string (Config.domainName c))"
  "StaticWebsiteStackProps.domainName (gammaStackProps c d) = JStr (''gamma.'' @ js_to_string (Config.domainName c))"
  "StaticWebsiteStackProps.domainName (prodStackProps c d) = Config.domainName c"
  "trustedAccountIds (dnsStackProps c) = [betaAccount c, gammaAccount c, prodAccount c]"
  by (simp_all add: betaStackProps_def gammaStackProps_def prodStackProps_def dnsStackProps_def)

lemma kinds_ok:
  assumes "thrown (main ctx penv) = None"
  shows "map declared_kinds (stacks (app (main ctx penv))) =
           [[HostedZoneKind, RoleKind],
            [BucketKind, CertificateKind, OriginAccessIdentityKind, DistributionKind,
             AliasRecordKind, BucketDeploymentKind],
            [BucketKind, CertificateKind, OriginAccessIdentityKind, DistributionKind,
             AliasRecordKind, BucketDeploymentKind],
            [BucketKind, CertificateKind, OriginAccessIdentityKind, DistributionKind,
             AliasRecordKind, BucketDeploymentKind]]"
  by (simp add: stacks_ok [OF assms] declared_kinds_def site_children_obs dns_children_obs)

lemma app_kinds_ok:
  assumes "thrown (main ctx penv) = None"
  shows "app_kinds (app (main ctx penv)) =
           {HostedZoneKind, RoleKind, BucketKind, DistributionKind, CertificateKind,
            AliasRecordKind, OriginAccessIdentityKind, BucketDeploymentKind}"
  unfolding app_kinds_def kinds_ok [OF assms] by auto

section \<open>Validation of the configuration\<close>

text \<open>
  Claim C1, as amended. When a required field (one of dnsAccount, betaAccount, gammaAccount,
  prodAccount, domainName) is falsy both in the CDK context and in its environment variable,
  the program throws an Error whose message names the first falsy required field in the
  order of \<open>requiredFields\<close>; that field is the given one whenever every required field
  before it is truthy. At the throw no stack has been constructed and synthesis has not
  been invoked.
\<close>

theorem missing_field_throws_first:
  assumes "field \<in> set requiredFields"
      and "\<not> truthy (tryGetContext ctx field)"
      and "\<not> truthy (getenv penv (env_name field))"
  shows "\<exists>g. List.find (\<lambda>f. \<not> truthy (config_get (config ctx penv) f)) requiredFields = Some g \<and>
             (list_all (\<lambda>f. truthy (config_get (config ctx penv) f))
                (takeWhile (\<lambda>f. f \<noteq> field) requiredFields) \<longrightarrow> g = field) \<and>
             thrown (main ctx penv) = Some (Error (missing_message g)) \<and>
             sublist g (missing_message g) \<and>
             stacks (app (main ctx penv)) = [] \<and>
             \<not> synthesized (app (main ctx penv))"
proof -
  have absent: "\<not> truthy (config_get (config ctx penv) field)"
    using assms by (simp add: config_get_required js_or_def)
  from find_first_absent [OF assms(1) absent]
  obtain g where g: "List.find (\<lambda>f. \<not> truthy (config_get (config ctx penv) f)) requiredFields = Some g"
    and first: "list_all (\<lambda>f. truthy (config_get (config ctx penv) f))
                (takeWhile (\<lambda>f. f \<noteq> field) requiredFields) \<longrightarrow> g = field"
    by blast
  have v: "validate (config ctx penv) requiredFields = Inl (Error (missing_message g))"
    by (simp add: validate_find g)
  have "thrown (main ctx penv) = Some (Error (missing_message g))"
    by (simp add: main_thrown v)
  moreover have "app (main ctx penv) = \<lparr> stacks = [], synthesized = False \<rparr>"
    by (rule main_app_thrown [OF v])
  ultimately show ?thesis
    using g first sublist_missing_message by auto
qed

text \<open>A run in which the DNS account is set and the beta account is the first one missing.\<close>

theorem missing_field_throws_first_witness:
  "''betaAccount'' \<in> set requiredFields \<and>
   \<not> truthy (tryGetContext Map.empty ''betaAccount'') \<and>
   \<not> truthy (getenv [''DNS_ACCOUNT_ID'' \<mapsto> ''111111111111''] (env_name ''betaAccount'')) \<and>
   thrown (main Map.empty [''DNS_ACCOUNT_ID'' \<mapsto> ''111111111111'']) =
     Some (Error (missing_message ''betaAccount'')) \<and>
   stacks (app (main Map.empty [''DNS_ACCOUNT_ID'' \<mapsto> ''111111111111''])) = [] \<and>
   \<not> synthesized (app (main Map.empty [''DNS_ACCOUNT_ID'' \<mapsto> ''111111111111'']))"
proof -
  let ?penv = "[''DNS_ACCOUNT_ID'' \<mapsto> ''111111111111'']"
  have h1: "''betaAccount'' \<in> set requiredFields"
    by (simp add: requiredFields_def)
  have h2: "\<not> truthy (tryGetContext Map.empty ''betaAccount'')"
    by (simp add: tryGetContext_def)
  have h3: "\<not> truthy (getenv ?penv (env_name ''betaAccount''))"
    by (simp add: getenv_def env_name_def)
  have f: "List.find (\<lambda>f. \<not> truthy (config_get (config Map.empty ?penv) f)) requiredFields
             = Some ''betaAccount''"
    by (simp add: requiredFields_def config_get_def config_def js_or_def tryGetContext_def getenv_def)
  from missing_field_throws_first [OF h1 h2 h3] f h1 h2 h3
  show ?thesis by auto
qed

text \<open>
  The claim as first stated asks for an Error naming the given field. With the DNS account
  and the beta account both missing, the Error names dnsAccount and does not mention
  betaAccount.
\<close>

theorem missing_field_counterexample:
  "''betaAccount'' \<in> set requiredFields \<and>
   \<not> truthy (tryGetContext Map.empty ''betaAccount'') \<and>
   \<not> truthy (getenv [''DOMAIN_NAME'' \<mapsto> ''example.com''] (env_name ''betaAccount'')) \<and>
   thrown (main Map.empty [''DOMAIN_NAME'' \<mapsto> ''example.com'']) =
     Some (Error (''Missing required configuration: dnsAccount. '' @
                  ''Set via --context dnsAccount=value or environment variable DNSACCOUNT'')) \<and>
   \<not> sublist ''betaAccount''
       (''Missing required configuration: dnsAccount. '' @
        ''Set via --context dnsAccount=value or environment variable DNSACCOUNT'')"
proof (intro conjI)
  show "''betaAccount'' \<in> set requiredFields"
    by (simp add: requiredFields_def)
  show "\<not> truthy (tryGetContext Map.empty ''betaAccount'')"
    by (simp add: tryGetContext_def)
  show "\<not> truthy (getenv [''DOMAIN_NAME'' \<mapsto> ''example.com''] (env_name ''betaAccount''))"
    by (simp add: getenv_def env_name_def)
  have m: "missing_message ''dnsAccount'' =
             ''Missing required configuration: dnsAccount. '' @
             ''Set via --context dnsAccount=value or environment variable DNSACCOUNT''"
    by code_simp
  have "thrown (main Map.empty [''DOMAIN_NAME'' \<mapsto> ''example.com'']) =
          Some (Error (missing_message ''dnsAccount''))"
    by (simp add: main_thrown validate_required config_def js_or_def tryGetContext_def getenv_def)
  then show "thrown (main Map.empty [''DOMAIN_NAME'' \<mapsto> ''example.com'']) =
     Some (Error (''Missing required configuration: dnsAccount. '' @
                  ''Set via --context dnsAccount=value or environment variable DNSACCOUNT''))"
    using m by simp
  show "\<not> sublist ''betaAccount''
       (''Missing required configuration: dnsAccount. '' @
        ''Set via --context dnsAccount=value or environment variable DNSACCOUNT'')"
    by code_simp
qed

text \<open>
  Claim C2. The validation loop falls through exactly when dnsAccount, betaAccount,
  gammaAccount, prodAccount and domainName are all truthy, whatever their contents; it
  throws exactly when some required field is falsy; and the program throws nothing exactly
  when the five configured values are truthy.
\<close>

theorem validation_throws_iff_absent:
  "(validate c requiredFields = Inr ()) =
     (truthy (dnsAccount c) \<and> truthy (betaAccount c) \<and> truthy (gammaAccount c) \<and>
      truthy (prodAccount c) \<and> truthy (Config.domainName c)) \<and>
   (\<exists>e. validate c requiredFields = Inl e) =
     (\<exists>f \<in> set requiredFields. \<not> truthy (config_get c f)) \<and>
   (thrown (main ctx penv) = None) =
     (truthy (dnsAccount (config ctx penv)) \<and> truthy (betaAccount (config ctx penv)) \<and>
      truthy (gammaAccount (config ctx penv)) \<and> truthy (prodAccount (config ctx penv)) \<and>
      truthy (Config.domainName (config ctx penv)))"
proof (intro conjI)
  show "(validate c requiredFields = Inr ()) =
     (truthy (dnsAccount c) \<and> truthy (betaAccount c) \<and> truthy (gammaAccount c) \<and>
      truthy (prodAccount c) \<and> truthy (Config.domainName c))"
    by (simp add: validate_required)
  show "(\<exists>e. validate c requiredFields = Inl e) =
     (\<exists>f \<in> set requiredFields. \<not> truthy (config_get c f))"
    by (simp add: validate_required) (simp add: requiredFields_def config_get_def)
  show "(thrown (main ctx penv) = None) =
     (truthy (dnsAccount (config ctx penv)) \<and> truthy (betaAccount (config ctx penv)) \<and>
      truthy (gammaAccount (config ctx penv)) \<and> truthy (prodAccount (config ctx penv)) \<and>
      truthy (Config.domainName (config ctx penv)))"
    by (simp add: thrown_None_iff validate_required)
qed

section \<open>The declared resources and their wiring\<close>

lemma site_stacks_ok:
  assumes "thrown (main ctx penv) = None"
  shows "siteStacks (stacks (app (main ctx penv))) =
           [addDependency
              (new_StaticWebsiteStack ''BetaStaticWebsiteStack''
                 (betaStackProps (config ctx penv)
                    (new_DnsStack ''DnsStack'' (dnsStackProps (config ctx penv)))))
              (new_DnsStack ''DnsStack'' (dnsStackProps (config ctx penv))),
            addDependency
              (new_StaticWebsiteStack ''GammaStaticWebsiteStack''
                 (gammaStackProps (config ctx penv)
                    (new_DnsStack ''DnsStack'' (dnsStackProps (config ctx penv)))))
              (new_DnsStack ''DnsStack'' (dnsStackProps (config ctx penv))),
            addDependency
              (new_StaticWebsiteStack ''ProdStaticWebsiteStack''
                 (prodStackProps (config ctx penv)
                    (new_DnsStack ''DnsStack'' (dnsStackProps (config ctx penv)))))
              (new_DnsStack ''DnsStack'' (dnsStackProps (config ctx penv)))]"
  by (simp add: stacks_ok [OF assms])

lemma dns_stacks_ok:
  assumes "thrown (main ctx penv) = None"
  shows "dnsStacks (stacks (app (main ctx penv))) =
           [new_DnsStack ''DnsStack'' (dnsStackProps (config ctx penv))]"
  by (simp add: stacks_ok [OF assms])

lemma main_calls_ok:
  assumes "thrown (main ctx penv) = None"
  shows "calls (main ctx penv) =
           [NewDnsStack ''DnsStack'' (dnsStackProps (config ctx penv)),
            NewStaticWebsiteStack ''BetaStaticWebsiteStack''
              (betaStackProps (config ctx penv)
                 (new_DnsStack ''DnsStack'' (dnsStackProps (config ctx penv)))),
            NewStaticWebsiteStack ''GammaStaticWebsiteStack''
              (gammaStackProps (config ctx penv)
                 (new_DnsStack ''DnsStack'' (dnsStackProps (config ctx penv)))),
            NewStaticWebsiteStack ''ProdStaticWebsiteStack''
              (prodStackProps (config ctx penv)
                 (new_DnsStack ''DnsStack'' (dnsStackProps (config ctx penv)))),
            AddDependency ''BetaStaticWebsiteStack'' ''DnsStack'',
            AddDependency ''GammaStaticWebsiteStack'' ''DnsStack'',
            AddDependency ''ProdStaticWebsiteStack'' ''DnsStack'',
            Synth]"
proof -
  from assms have "validate (config ctx penv) requiredFields = Inr ()"
    by (simp add: thrown_None_iff)
  then show ?thesis
    by (simp add: main_def Let_def)
qed

lemma dns_attrs:
  "attr (hostedZone (new_DnsStack sid p)) name = Attr sid ''RootHostedZone'' name"
  "attr (crossAccountRole (new_DnsStack sid p)) name = Attr sid ''CrossAccountDnsRole'' name"
  by (simp_all add: new_DnsStack_def Let_def applyRemovalPolicy_def addToPolicy_def attr_def)

lemma site_attrs:
  "attr (bucket (new_StaticWebsiteStack sid p)) name = Attr sid ''SiteBucket'' name"
  "attr (StaticWebsiteStack.distribution (new_StaticWebsiteStack sid p)) name =
     Attr sid ''Distribution'' name"
  "ref (bucket (new_StaticWebsiteStack sid p)) = (sid, ''SiteBucket'')"
  "ref (StaticWebsiteStack.distribution (new_StaticWebsiteStack sid p)) = (sid, ''Distribution'')"
  by (simp_all add: new_StaticWebsiteStack_def Let_def grantRead_def attr_def ref_def)

lemma dns_declared:
  "roles (children (new_DnsStack sid p)) = [crossAccountRole (new_DnsStack sid p)]"
  by (simp add: new_DnsStack_def Let_def)

lemma site_declared:
  "map ImportedHostedZone.hostedZoneId (importedZones (children (new_StaticWebsiteStack sid p))) =
     [StaticWebsiteStackProps.hostedZoneId p]"
  "map ImportedHostedZone.zoneName (importedZones (children (new_StaticWebsiteStack sid p))) =
     [hostedZoneName p]"
  "map Certificate.domainName (certificates (children (new_StaticWebsiteStack sid p))) =
     [StaticWebsiteStackProps.domainName p]"
  "map recordName (records (children (new_StaticWebsiteStack sid p))) =
     [StaticWebsiteStackProps.domainName p]"
  "map target (records (children (new_StaticWebsiteStack sid p))) =
     [fromAlias (CloudFrontTarget (sid, ''Distribution''))]"
  "map ref (distributions (children (new_StaticWebsiteStack sid p))) = [(sid, ''Distribution'')]"
  "map domainNames (distributions (children (new_StaticWebsiteStack sid p))) =
     [[StaticWebsiteStackProps.domainName p]]"
  "bucket_accessors (children (new_StaticWebsiteStack sid p)) (bucket (new_StaticWebsiteStack sid p)) =
     [(sid, ''OAI''), (sid, ''WebsiteDeployment'')]"
  by (simp_all add: new_StaticWebsiteStack_def Let_def grantRead_def ref_def bucket_accessors_def)

text \<open>
  Claim C3, as amended. When the program reaches synthesis, the app declares every kind of
  resource the claim lists: the DNS stack declares a hosted zone and an IAM role, and each
  of the three website stacks declares a bucket, a distribution, a certificate and an alias
  record. These are not all: each website stack also declares a CloudFront origin access
  identity and a bucket deployment.
\<close>

theorem declared_resource_kinds:
  assumes "thrown (main ctx penv) = None"
  shows "{HostedZoneKind, RoleKind, BucketKind, DistributionKind, CertificateKind,
          AliasRecordKind} \<subseteq> app_kinds (app (main ctx penv)) \<and>
         OriginAccessIdentityKind \<in> app_kinds (app (main ctx penv)) \<and>
         BucketDeploymentKind \<in> app_kinds (app (main ctx penv)) \<and>
         length (dnsStacks (stacks (app (main ctx penv)))) = 1 \<and>
         list_all (\<lambda>d. {HostedZoneKind, RoleKind} \<subseteq> set (declared_kinds (SDns d)))
           (dnsStacks (stacks (app (main ctx penv)))) \<and>
         length (siteStacks (stacks (app (main ctx penv)))) = 3 \<and>
         list_all (\<lambda>s. {BucketKind, DistributionKind, CertificateKind, AliasRecordKind,
                        OriginAccessIdentityKind, BucketDeploymentKind}
                       \<subseteq> set (declared_kinds (SSite s)))
           (siteStacks (stacks (app (main ctx penv))))"
proof -
  have "list_all (\<lambda>d. {HostedZoneKind, RoleKind} \<subseteq> set (declared_kinds (SDns d)))
           (dnsStacks (stacks (app (main ctx penv))))"
    by (simp add: dns_stacks_ok [OF assms] declared_kinds_def dns_children_obs)
  moreover have "list_all (\<lambda>s. {BucketKind, DistributionKind, CertificateKind, AliasRecordKind,
                        OriginAccessIdentityKind, BucketDeploymentKind}
                       \<subseteq> set (declared_kinds (SSite s)))
           (siteStacks (stacks (app (main ctx penv))))"
    by (simp add: site_stacks_ok [OF assms] declared_kinds_def site_children_obs)
  ultimately show ?thesis
    by (simp add: app_kinds_ok [OF assms] dns_stacks_ok [OF assms] site_stacks_ok [OF assms])
qed

text \<open>The run of the example configuration reaches synthesis and declares these kinds.\<close>

theorem declared_resource_kinds_witness:
  "thrown (main example_context example_env) = None \<and>
   {HostedZoneKind, RoleKind, BucketKind, DistributionKind, CertificateKind, AliasRecordKind}
     \<subseteq> app_kinds (app (main example_context example_env)) \<and>
   OriginAccessIdentityKind \<in> app_kinds (app (main example_context example_env)) \<and>
   BucketDeploymentKind \<in> app_kinds (app (main example_context example_env)) \<and>
   length (siteStacks (stacks (app (main example_context example_env)))) = 3"
  using declared_resource_kinds [OF example_thrown] example_thrown by simp

text \<open>
  The claim as first stated has the app declare exactly the six listed kinds. The run of a
  complete configuration also declares an origin access identity and a bucket deployment.
\<close>

theorem declared_resource_kinds_counterexample:
  "thrown (main [''domainName'' \<mapsto> JStr ''example.com'']
       [''DNS_ACCOUNT_ID'' \<mapsto> ''111111111111'', ''BETA_ACCOUNT_ID'' \<mapsto> ''222222222222'',
        ''GAMMA_ACCOUNT_ID'' \<mapsto> ''333333333333'', ''PROD_ACCOUNT_ID'' \<mapsto> ''444444444444'']) = None \<and>
   app_kinds (app (main [''domainName'' \<mapsto> JStr ''example.com'']
       [''DNS_ACCOUNT_ID'' \<mapsto> ''111111111111'', ''BETA_ACCOUNT_ID'' \<mapsto> ''222222222222'',
        ''GAMMA_ACCOUNT_ID'' \<mapsto> ''333333333333'', ''PROD_ACCOUNT_ID'' \<mapsto> ''444444444444''])) \<noteq>
     {HostedZoneKind, RoleKind, BucketKind, DistributionKind, CertificateKind, AliasRecordKind} \<and>
   OriginAccessIdentityKind \<in> app_kinds (app (main [''domainName'' \<mapsto> JStr ''example.com'']
       [''DNS_ACCOUNT_ID'' \<mapsto> ''111111111111'', ''BETA_ACCOUNT_ID'' \<mapsto> ''222222222222'',
        ''GAMMA_ACCOUNT_ID'' \<mapsto> ''333333333333'', ''PROD_ACCOUNT_ID'' \<mapsto> ''444444444444''])) \<and>
   BucketDeploymentKind \<in> app_kinds (app (main [''domainName'' \<mapsto> JStr ''example.com'']
       [''DNS_ACCOUNT_ID'' \<mapsto> ''111111111111'', ''BETA_ACCOUNT_ID'' \<mapsto> ''222222222222'',
        ''GAMMA_ACCOUNT_ID'' \<mapsto> ''333333333333'', ''PROD_ACCOUNT_ID'' \<mapsto> ''444444444444'']))"
proof -
  have ok: "thrown (main [''domainName'' \<mapsto> JStr ''example.com'']
       [''DNS_ACCOUNT_ID'' \<mapsto> ''111111111111'', ''BETA_ACCOUNT_ID'' \<mapsto> ''222222222222'',
        ''GAMMA_ACCOUNT_ID'' \<mapsto> ''333333333333'', ''PROD_ACCOUNT_ID'' \<mapsto> ''444444444444'']) = None"
    by (simp add: thrown_None_iff example_run_ok)
  show ?thesis
    unfolding app_kinds_ok [OF ok] using ok by auto
qed

text \<open>
  Claim C4. When the program reaches synthesis the app holds the DNS stack (a hosted zone
  and a role) followed by the beta, gamma and prod website stacks. The program constructs
  every website stack with props whose \<open>hostedZoneId\<close> is the id of the hosted zone the DNS
  stack declares and whose \<open>crossAccountRoleArn\<close> is the ARN of the role the DNS stack
  declares; the hosted zone each website stack imports has that id; and the program makes
  every website stack depend on the DNS stack before it calls \<^verbatim>\<open>synth\<close>.
\<close>

theorem site_stacks_wired_to_dns_stack:
  assumes "thrown (main ctx penv) = None"
  shows "\<exists>dns bp gp pp.
     stacks (app (main ctx penv)) =
       [SDns dns,
        SSite (addDependency (new_StaticWebsiteStack ''BetaStaticWebsiteStack'' bp) dns),
        SSite (addDependency (new_StaticWebsiteStack ''GammaStaticWebsiteStack'' gp) dns),
        SSite (addDependency (new_StaticWebsiteStack ''ProdStaticWebsiteStack'' pp) dns)] \<and>
     dns = new_DnsStack ''DnsStack'' (dnsStackProps (config ctx penv)) \<and>
     declared_kinds (SDns dns) = [HostedZoneKind, RoleKind] \<and>
     (\<forall>p \<in> {bp, gp, pp}.
        StaticWebsiteStackProps.hostedZoneId p = attr (hostedZone dns) ''hostedZoneId'' \<and>
        crossAccountRoleArn p = attr (crossAccountRole dns) ''roleArn'') \<and>
     (\<forall>s \<in> set (siteStacks (stacks (app (main ctx penv)))).
        dependencies s = [stack_id dns]) \<and>
     calls (main ctx penv) =
       [NewDnsStack ''DnsStack'' (dnsStackProps (config ctx penv)),
        NewStaticWebsiteStack ''BetaStaticWebsiteStack'' bp,
        NewStaticWebsiteStack ''GammaStaticWebsiteStack'' gp,
        NewStaticWebsiteStack ''ProdStaticWebsiteStack'' pp,
        AddDependency ''BetaStaticWebsiteStack'' ''DnsStack'',
        AddDependency ''GammaStaticWebsiteStack'' ''DnsStack'',
        AddDependency ''ProdStaticWebsiteStack'' ''DnsStack'',
        Synth] \<and>
     map (\<lambda>(sid, p). (sid, StaticWebsiteStackProps.hostedZoneId p, crossAccountRoleArn p))
       (site_calls (calls (main ctx penv))) =
       [(''BetaStaticWebsiteStack'', Attr ''DnsStack'' ''RootHostedZone'' ''hostedZoneId'',
         Attr ''DnsStack'' ''CrossAccountDnsRole'' ''roleArn''),
        (''GammaStaticWebsiteStack'', Attr ''DnsStack'' ''RootHostedZone'' ''hostedZoneId'',
         Attr ''DnsStack'' ''CrossAccountDnsRole'' ''roleArn''),
        (''ProdStaticWebsiteStack'', Attr ''DnsStack'' ''RootHostedZone'' ''hostedZoneId'',
         Attr ''DnsStack'' ''CrossAccountDnsRole'' ''roleArn'')] \<and>
     zones (children dns) = [hostedZone dns] \<and>
     roles (children dns) = [crossAccountRole dns] \<and>
     attr (hostedZone dns) ''hostedZoneId'' = Attr ''DnsStack'' ''RootHostedZone'' ''hostedZoneId'' \<and>
     attr (crossAccountRole dns) ''roleArn'' = Attr ''DnsStack'' ''CrossAccountDnsRole'' ''roleArn'' \<and>
     (\<forall>s \<in> set (siteStacks (stacks (app (main ctx penv)))).
        map ImportedHostedZone.hostedZoneId (importedZones (children s)) =
          [attr (hostedZone dns) ''hostedZoneId''])"
proof -
  let ?dns = "new_DnsStack ''DnsStack'' (dnsStackProps (config ctx penv))"
  let ?bp = "betaStackProps (config ctx penv) ?dns"
  let ?gp = "gammaStackProps (config ctx penv) ?dns"
  let ?pp = "prodStackProps (config ctx penv) ?dns"
  have h1: "stacks (app (main ctx penv)) =
       [SDns ?dns,
        SSite (addDependency (new_StaticWebsiteStack ''BetaStaticWebsiteStack'' ?bp) ?dns),
        SSite (addDependency (new_StaticWebsiteStack ''GammaStaticWebsiteStack'' ?gp) ?dns),
        SSite (addDependency (new_StaticWebsiteStack ''ProdStaticWebsiteStack'' ?pp) ?dns)]"
    by (rule stacks_ok [OF assms])
  have h2: "declared_kinds (SDns ?dns) = [HostedZoneKind, RoleKind]"
    by (simp add: declared_kinds_def dns_children_obs)
  have h3: "\<forall>p \<in> {?bp, ?gp, ?pp}.
        StaticWebsiteStackProps.hostedZoneId p = attr (hostedZone ?dns) ''hostedZoneId'' \<and>
        crossAccountRoleArn p = attr (crossAccountRole ?dns) ''roleArn''"
    by simp
  have h4: "\<forall>s \<in> set (siteStacks (stacks (app (main ctx penv)))).
        dependencies s = [stack_id ?dns]"
    by (simp add: stacks_ok [OF assms])
  have h5: "calls (main ctx penv) =
       [NewDnsStack ''DnsStack'' (dnsStackProps (config ctx penv)),
        NewStaticWebsiteStack ''BetaStaticWebsiteStack'' ?bp,
        NewStaticWebsiteStack ''GammaStaticWebsiteStack'' ?gp,
        NewStaticWebsiteStack ''ProdStaticWebsiteStack'' ?pp,
        AddDependency ''BetaStaticWebsiteStack'' ''DnsStack'',
        AddDependency ''GammaStaticWebsiteStack'' ''DnsStack'',
        AddDependency ''ProdStaticWebsiteStack'' ''DnsStack'',
        Synth]"
    by (rule main_calls_ok [OF assms])
  have h6: "map (\<lambda>(sid, p). (sid, StaticWebsiteStackProps.hostedZoneId p, crossAccountRoleArn p))
       (site_calls (calls (main ctx penv))) =
       [(''BetaStaticWebsiteStack'', Attr ''DnsStack'' ''RootHostedZone'' ''hostedZoneId'',
         Attr ''DnsStack'' ''CrossAccountDnsRole'' ''roleArn''),
        (''GammaStaticWebsiteStack'', Attr ''DnsStack'' ''RootHostedZone'' ''hostedZoneId'',
         Attr ''DnsStack'' ''CrossAccountDnsRole'' ''roleArn''),
        (''ProdStaticWebsiteStack'', Attr ''DnsStack'' ''RootHostedZone'' ''hostedZoneId'',
         Attr ''DnsStack'' ''CrossAccountDnsRole'' ''roleArn'')]"
    by (simp add: main_calls_ok [OF assms] dns_attrs)
  have h7: "zones (children ?dns) = [hostedZone ?dns]"
    by (simp add: dns_children_obs)
  have h8: "roles (children ?dns) = [crossAccountRole ?dns]"
    by (simp add: dns_declared)
  have h9: "attr (hostedZone ?dns) ''hostedZoneId'' =
                   Attr ''DnsStack'' ''RootHostedZone'' ''hostedZoneId''"
    by (simp add: dns_attrs)
  have h10: "attr (crossAccountRole ?dns) ''roleArn'' =
                   Attr ''DnsStack'' ''CrossAccountDnsRole'' ''roleArn''"
    by (simp add: dns_attrs)
  have h11: "\<forall>s \<in> set (siteStacks (stacks (app (main ctx penv)))).
        map ImportedHostedZone.hostedZoneId (importedZones (children s)) =
          [attr (hostedZone ?dns) ''hostedZoneId'']"
    by (simp add: stacks_ok [OF assms] site_declared)
  show ?thesis
    apply (rule exI [of _ ?dns], rule exI [of _ ?bp], rule exI [of _ ?gp], rule exI [of _ ?pp])
    using h1 h2 h3 h4 h5 h6 h7 h8 h9 h10 h11
    apply (intro conjI)
    apply (assumption | rule refl)+
    done
qed

text \<open>
  In the example run each of the three website stacks is constructed with the zone id and
  the role ARN of \<open>DnsStack\<close> and depends on \<open>DnsStack\<close>.
\<close>

theorem site_stacks_wired_to_dns_stack_witness:
  "thrown (main example_context example_env) = None \<and>
   map (\<lambda>s. (stack_id s, dependencies s))
     (siteStacks (stacks (app (main example_context example_env)))) =
     [(''BetaStaticWebsiteStack'', [''DnsStack'']),
      (''GammaStaticWebsiteStack'', [''DnsStack'']),
      (''ProdStaticWebsiteStack'', [''DnsStack''])] \<and>
   map (\<lambda>(sid, p). (sid, StaticWebsiteStackProps.hostedZoneId p, crossAccountRoleArn p))
     (site_calls (calls (main example_context example_env))) =
     [(''BetaStaticWebsiteStack'', Attr ''DnsStack'' ''RootHostedZone'' ''hostedZoneId'',
       Attr ''DnsStack'' ''CrossAccountDnsRole'' ''roleArn''),
      (''GammaStaticWebsiteStack'', Attr ''DnsStack'' ''RootHostedZone'' ''hostedZoneId'',
       Attr ''DnsStack'' ''CrossAccountDnsRole'' ''roleArn''),
      (''ProdStaticWebsiteStack'', Attr ''DnsStack'' ''RootHostedZone'' ''hostedZoneId'',
       Attr ''DnsStack'' ''CrossAccountDnsRole'' ''roleArn'')]"
  using site_stacks_wired_to_dns_stack [OF example_thrown]
  by (elim exE conjE) (simp add: example_thrown)

lemma stack_outputs_ctor:
  "stack_outputs (SDns (new_DnsStack sid dp)) =
     [(''HostedZoneId'', Attr sid ''RootHostedZone'' ''hostedZoneId''),
      (''HostedZoneName'', Val (DnsStackProps.domainName dp)),
      (''CrossAccountRoleArn'', Attr sid ''CrossAccountDnsRole'' ''roleArn''),
      (''NameServers'', FnJoin '', '' (Attr sid ''RootHostedZone'' ''hostedZoneNameServers''))]"
  "stack_outputs (SSite (addDependency (new_StaticWebsiteStack sid' sp) t)) =
     [(''BucketName'', Attr sid' ''SiteBucket'' ''bucketName''),
      (''DistributionId'', Attr sid' ''Distribution'' ''distributionId''),
      (''DistributionDomainName'', Attr sid' ''Distribution'' ''distributionDomainName''),
      (''WebsiteUrl'',
         Val (JStr (''https://'' @ js_to_string (StaticWebsiteStackProps.domainName sp))))]"
  by (simp_all add: stack_outputs_def site_children_obs dns_children_obs dns_attrs site_attrs)

lemma output_values_ok:
  assumes "thrown (main ctx penv) = None"
  shows "map (\<lambda>s. set (map snd (stack_outputs s))) (stacks (app (main ctx penv))) =
        [{Attr ''DnsStack'' ''RootHostedZone'' ''hostedZoneId'',
          Val (Config.domainName (config ctx penv)),
          Attr ''DnsStack'' ''CrossAccountDnsRole'' ''roleArn'',
          FnJoin '', '' (Attr ''DnsStack'' ''RootHostedZone'' ''hostedZoneNameServers'')},
         {Attr ''BetaStaticWebsiteStack'' ''SiteBucket'' ''bucketName'',
          Attr ''BetaStaticWebsiteStack'' ''Distribution'' ''distributionId'',
          Attr ''BetaStaticWebsiteStack'' ''Distribution'' ''distributionDomainName'',
          Val (JStr (''https://'' @ ''beta.'' @ js_to_string (Config.domainName (config ctx penv))))},
         {Attr ''GammaStaticWebsiteStack'' ''SiteBucket'' ''bucketName'',
          Attr ''GammaStaticWebsiteStack'' ''Distribution'' ''distributionId'',
          Attr ''GammaStaticWebsiteStack'' ''Distribution'' ''distributionDomainName'',
          Val (JStr (''https://'' @ ''gamma.'' @ js_to_string (Config.domainName (config ctx penv))))},
         {Attr ''ProdStaticWebsiteStack'' ''SiteBucket'' ''bucketName'',
          Attr ''ProdStaticWebsiteStack'' ''Distribution'' ''distributionId'',
          Attr ''ProdStaticWebsiteStack'' ''Distribution'' ''distributionDomainName'',
          Val (JStr (''https://'' @ js_to_string (Config.domainName (config ctx penv))))}]"
  by (simp add: stacks_ok [OF assms] stack_outputs_ctor dnsStackProps_def)

lemma output_names_ok:
  assumes "thrown (main ctx penv) = None"
  shows "list_all2 (\<lambda>s names. set names \<subseteq> set (map fst (stack_outputs s)))
        (stacks (app (main ctx penv)))
        [[''HostedZoneId'', ''HostedZoneName'', ''CrossAccountRoleArn'', ''NameServers''],
         [''BucketName'', ''DistributionId'', ''DistributionDomainName'', ''WebsiteUrl''],
         [''BucketName'', ''DistributionId'', ''DistributionDomainName'', ''WebsiteUrl''],
         [''BucketName'', ''DistributionId'', ''DistributionDomainName'', ''WebsiteUrl'']]"
  by (simp add: stacks_ok [OF assms] stack_outputs_ctor)

text \<open>
  Claim C5. The outputs a DNS stack declares are exactly HostedZoneId (the id of its hosted
  zone), HostedZoneName (the zone name), CrossAccountRoleArn (the ARN of its role) and
  NameServers (the zone's name servers, joined); the outputs a website stack declares are
  exactly BucketName, DistributionId, DistributionDomainName and WebsiteUrl. In a run that
  reaches synthesis, the values the DNS stack publishes are exactly the hosted zone id, the
  zone name, the role ARN and the name servers, and the values each website stack publishes
  are exactly its bucket name, distribution id, distribution domain name and website URL,
  under those output names.
\<close>

theorem published_outputs:
  "stack_outputs (SDns (new_DnsStack sid dp)) =
     [(''HostedZoneId'', attr (hostedZone (new_DnsStack sid dp)) ''hostedZoneId''),
      (''HostedZoneName'', Val (DnsStackProps.domainName dp)),
      (''CrossAccountRoleArn'', attr (crossAccountRole (new_DnsStack sid dp)) ''roleArn''),
      (''NameServers'',
         FnJoin '', '' (attr (hostedZone (new_DnsStack sid dp)) ''hostedZoneNameServers''))] \<and>
   stack_outputs (SSite (new_StaticWebsiteStack sid' sp)) =
     [(''BucketName'', attr (bucket (new_StaticWebsiteStack sid' sp)) ''bucketName''),
      (''DistributionId'',
         attr (StaticWebsiteStack.distribution (new_StaticWebsiteStack sid' sp)) ''distributionId''),
      (''DistributionDomainName'',
         attr (StaticWebsiteStack.distribution (new_StaticWebsiteStack sid' sp))
           ''distributionDomainName''),
      (''WebsiteUrl'',
         Val (JStr (''https://'' @ js_to_string (StaticWebsiteStackProps.domainName sp))))] \<and>
   zones (children (new_DnsStack sid dp)) = [hostedZone (new_DnsStack sid dp)] \<and>
   roles (children (new_DnsStack sid dp)) = [crossAccountRole (new_DnsStack sid dp)] \<and>
   buckets (children (new_StaticWebsiteStack sid' sp)) = [bucket (new_StaticWebsiteStack sid' sp)] \<and>
   distributions (children (new_StaticWebsiteStack sid' sp)) =
     [StaticWebsiteStack.distribution (new_StaticWebsiteStack sid' sp)] \<and>
   (thrown (main ctx penv) = None \<longrightarrow>
      map (\<lambda>s. set (map snd (stack_outputs s))) (stacks (app (main ctx penv))) =
        [{Attr ''DnsStack'' ''RootHostedZone'' ''hostedZoneId'',
          Val (Config.domainName (config ctx penv)),
          Attr ''DnsStack'' ''CrossAccountDnsRole'' ''roleArn'',
          FnJoin '', '' (Attr ''DnsStack'' ''RootHostedZone'' ''hostedZoneNameServers'')},
         {Attr ''BetaStaticWebsiteStack'' ''SiteBucket'' ''bucketName'',
          Attr ''BetaStaticWebsiteStack'' ''Distribution'' ''distributionId'',
          Attr ''BetaStaticWebsiteStack'' ''Distribution'' ''distributionDomainName'',
          Val (JStr (''https://'' @ ''beta.'' @ js_to_string (Config.domainName (config ctx penv))))},
         {Attr ''GammaStaticWebsiteStack'' ''SiteBucket'' ''bucketName'',
          Attr ''GammaStaticWebsiteStack'' ''Distribution'' ''distributionId'',
          Attr ''GammaStaticWebsiteStack'' ''Distribution'' ''distributionDomainName'',
          Val (JStr (''https://'' @ ''gamma.'' @ js_to_string (Config.domainName (config ctx penv))))},
         {Attr ''ProdStaticWebsiteStack'' ''SiteBucket'' ''bucketName'',
          Attr ''ProdStaticWebsiteStack'' ''Distribution'' ''distributionId'',
          Attr ''ProdStaticWebsiteStack'' ''Distribution'' ''distributionDomainName'',
          Val (JStr (''https://'' @ js_to_string (Config.domainName (config ctx penv))))}] \<and>
      list_all2 (\<lambda>s names. set names \<subseteq> set (map fst (stack_outputs s)))
        (stacks (app (main ctx penv)))
        [[''HostedZoneId'', ''HostedZoneName'', ''CrossAccountRoleArn'', ''NameServers''],
         [''BucketName'', ''DistributionId'', ''DistributionDomainName'', ''WebsiteUrl''],
         [''BucketName'', ''DistributionId'', ''DistributionDomainName'', ''WebsiteUrl''],
         [''BucketName'', ''DistributionId'', ''DistributionDomainName'', ''WebsiteUrl'']])"
proof -
  have run: "thrown (main ctx penv) = None \<longrightarrow>
      map (\<lambda>s. set (map snd (stack_outputs s))) (stacks (app (main ctx penv))) =
        [{Attr ''DnsStack'' ''RootHostedZone'' ''hostedZoneId'',
          Val (Config.domainName (config ctx penv)),
          Attr ''DnsStack'' ''CrossAccountDnsRole'' ''roleArn'',
          FnJoin '', '' (Attr ''DnsStack'' ''RootHostedZone'' ''hostedZoneNameServers'')},
         {Attr ''BetaStaticWebsiteStack'' ''SiteBucket'' ''bucketName'',
          Attr ''BetaStaticWebsiteStack'' ''Distribution'' ''distributionId'',
          Attr ''BetaStaticWebsiteStack'' ''Distribution'' ''distributionDomainName'',
          Val (JStr (''https://'' @ ''beta.'' @ js_to_string (Config.domainName (config ctx penv))))},
         {Attr ''GammaStaticWebsiteStack'' ''SiteBucket'' ''bucketName'',
          Attr ''GammaStaticWebsiteStack'' ''Distribution'' ''distributionId'',
          Attr ''GammaStaticWebsiteStack'' ''Distribution'' ''distributionDomainName'',
          Val (JStr (''https://'' @ ''gamma.'' @ js_to_string (Config.domainName (config ctx penv))))},
         {Attr ''ProdStaticWebsiteStack'' ''SiteBucket'' ''bucketName'',
          Attr ''ProdStaticWebsiteStack'' ''Distribution'' ''distributionId'',
          Attr ''ProdStaticWebsiteStack'' ''Distribution'' ''distributionDomainName'',
          Val (JStr (''https://'' @ js_to_string (Config.domainName (config ctx penv))))}] \<and>
      list_all2 (\<lambda>s names. set names \<subseteq> set (map fst (stack_outputs s)))
        (stacks (app (main ctx penv)))
        [[''HostedZoneId'', ''HostedZoneName'', ''CrossAccountRoleArn'', ''NameServers''],
         [''BucketName'', ''DistributionId'', ''DistributionDomainName'', ''WebsiteUrl''],
         [''BucketName'', ''DistributionId'', ''DistributionDomainName'', ''WebsiteUrl''],
         [''BucketName'', ''DistributionId'', ''DistributionDomainName'', ''WebsiteUrl'']]"
    using output_values_ok [of ctx penv] output_names_ok [of ctx penv] by blast
  have ctor: "stack_outputs (SDns (new_DnsStack sid dp)) =
     [(''HostedZoneId'', attr (hostedZone (new_DnsStack sid dp)) ''hostedZoneId''),
      (''HostedZoneName'', Val (DnsStackProps.domainName dp)),
      (''CrossAccountRoleArn'', attr (crossAccountRole (new_DnsStack sid dp)) ''roleArn''),
      (''NameServers'',
         FnJoin '', '' (attr (hostedZone (new_DnsStack sid dp)) ''hostedZoneNameServers''))] \<and>
   stack_outputs (SSite (new_StaticWebsiteStack sid' sp)) =
     [(''BucketName'', attr (bucket (new_StaticWebsiteStack sid' sp)) ''bucketName''),
      (''DistributionId'',
         attr (StaticWebsiteStack.distribution (new_StaticWebsiteStack sid' sp)) ''distributionId''),
      (''DistributionDomainName'',
         attr (StaticWebsiteStack.distribution (new_StaticWebsiteStack sid' sp))
           ''distributionDomainName''),
      (''WebsiteUrl'',
         Val (JStr (''https://'' @ js_to_string (StaticWebsiteStackProps.domainName sp))))]"
    by (simp add: stack_outputs_def site_children_obs dns_children_obs)
  have tie: "zones (children (new_DnsStack sid dp)) = [hostedZone (new_DnsStack sid dp)] \<and>
   roles (children (new_DnsStack sid dp)) = [crossAccountRole (new_DnsStack sid dp)] \<and>
   buckets (children (new_StaticWebsiteStack sid' sp)) = [bucket (new_StaticWebsiteStack sid' sp)] \<and>
   distributions (children (new_StaticWebsiteStack sid' sp)) =
     [StaticWebsiteStack.distribution (new_StaticWebsiteStack sid' sp)]"
    by (simp add: site_children_obs dns_children_obs dns_declared)
  from ctor tie run show ?thesis by blast
qed

text \<open>The values the four stacks of the example run publish.\<close>

theorem published_outputs_witness:
  "thrown (main example_context example_env) = None \<and>
   map (\<lambda>s. set (map snd (stack_outputs s))) (stacks (app (main example_context example_env))) =
        [{Attr ''DnsStack'' ''RootHostedZone'' ''hostedZoneId'',
          Val (JStr ''example.com''),
          Attr ''DnsStack'' ''CrossAccountDnsRole'' ''roleArn'',
          FnJoin '', '' (Attr ''DnsStack'' ''RootHostedZone'' ''hostedZoneNameServers'')},
         {Attr ''BetaStaticWebsiteStack'' ''SiteBucket'' ''bucketName'',
          Attr ''BetaStaticWebsiteStack'' ''Distribution'' ''distributionId'',
          Attr ''BetaStaticWebsiteStack'' ''Distribution'' ''distributionDomainName'',
          Val (JStr ''https://beta.example.com'')},
         {Attr ''GammaStaticWebsiteStack'' ''SiteBucket'' ''bucketName'',
          Attr ''GammaStaticWebsiteStack'' ''Distribution'' ''distributionId'',
          Attr ''GammaStaticWebsiteStack'' ''Distribution'' ''distributionDomainName'',
          Val (JStr ''https://gamma.example.com'')},
         {Attr ''ProdStaticWebsiteStack'' ''SiteBucket'' ''bucketName'',
          Attr ''ProdStaticWebsiteStack'' ''Distribution'' ''distributionId'',
          Attr ''ProdStaticWebsiteStack'' ''Distribution'' ''distributionDomainName'',
          Val (JStr ''https://example.com'')}]"
  using published_outputs [where ctx = example_context and penv = example_env]
        example_thrown
  by (simp add: example_config)

lemma dns_principals_ok:
  assumes "thrown (main ctx penv) = None"
  shows "map (\<lambda>d. principals (assumedBy (crossAccountRole d)))
           (dnsStacks (stacks (app (main ctx penv)))) =
         [[AccountPrincipal (betaAccount (config ctx penv)),
           AccountPrincipal (gammaAccount (config ctx penv)),
           AccountPrincipal (prodAccount (config ctx penv))]]"
  by (simp add: stacks_ok [OF assms])

lemma declared_role_principals_ok:
  assumes "thrown (main ctx penv) = None"
  shows "map (\<lambda>d. map (\<lambda>r. principals (assumedBy r)) (roles (children d)))
           (dnsStacks (stacks (app (main ctx penv)))) =
         [[[AccountPrincipal (betaAccount (config ctx penv)),
            AccountPrincipal (gammaAccount (config ctx penv)),
            AccountPrincipal (prodAccount (config ctx penv))]]]"
  by (simp add: stacks_ok [OF assms] dns_declared)

text \<open>
  Claim C6. The DNS stack declares one role, the cross-account role. The principals that
  may assume it are the account principals of the trusted account ids given to the stack,
  one for each id and no other: an account's principal is among them if and only if the
  account id is trusted. In a run that reaches synthesis the role the DNS stack declares is
  assumable by the principals of the beta, gamma and prod accounts of the configuration.
\<close>

theorem cross_account_role_trusts_exactly:
  "set (principals (assumedBy (crossAccountRole (new_DnsStack sid props)))) =
     AccountPrincipal ` set (trustedAccountIds props) \<and>
   (AccountPrincipal a \<in> set (principals (assumedBy (crossAccountRole (new_DnsStack sid props))))) =
     (a \<in> set (trustedAccountIds props)) \<and>
   (thrown (main ctx penv) = None \<longrightarrow>
      map (\<lambda>d. principals (assumedBy (crossAccountRole d)))
        (dnsStacks (stacks (app (main ctx penv)))) =
      [[AccountPrincipal (betaAccount (config ctx penv)),
        AccountPrincipal (gammaAccount (config ctx penv)),
        AccountPrincipal (prodAccount (config ctx penv))]]) \<and>
   roles (children (new_DnsStack sid props)) = [crossAccountRole (new_DnsStack sid props)] \<and>
   map (\<lambda>r. principals (assumedBy r)) (roles (children (new_DnsStack sid props))) =
     [map AccountPrincipal (trustedAccountIds props)] \<and>
   (thrown (main ctx penv) = None \<longrightarrow>
      map (\<lambda>d. map (\<lambda>r. principals (assumedBy r)) (roles (children d)))
        (dnsStacks (stacks (app (main ctx penv)))) =
      [[[AccountPrincipal (betaAccount (config ctx penv)),
         AccountPrincipal (gammaAccount (config ctx penv)),
         AccountPrincipal (prodAccount (config ctx penv))]]])"
  using dns_principals_ok [of ctx penv] declared_role_principals_ok [of ctx penv]
  by (auto simp: dns_declared)

text \<open>The role the DNS stack of the example run declares trusts the three stage accounts.\<close>

theorem cross_account_role_trusts_exactly_witness:
  "thrown (main example_context example_env) = None \<and>
   map (\<lambda>d. map (\<lambda>r. principals (assumedBy r)) (roles (children d)))
     (dnsStacks (stacks (app (main example_context example_env)))) =
     [[[AccountPrincipal (JStr ''222222222222''), AccountPrincipal (JStr ''333333333333''),
        AccountPrincipal (JStr ''444444444444'')]]]"
  using cross_account_role_trusts_exactly [where ctx = example_context and penv = example_env]
        example_thrown
  by (simp add: example_config)


section \<open>Where the configuration comes from\<close>

text \<open>
  Claim C7, as amended. Each of the four account ids and the domain name is the CDK context
  value when that is truthy and the environment variable (\<^verbatim>\<open>DNS_ACCOUNT_ID\<close>,
  \<^verbatim>\<open>BETA_ACCOUNT_ID\<close>, \<^verbatim>\<open>GAMMA_ACCOUNT_ID\<close>, \<^verbatim>\<open>PROD_ACCOUNT_ID\<close>,
  \<^verbatim>\<open>DOMAIN_NAME\<close>) otherwise. The region is the context
  value when that is truthy and us-east-1 otherwise: it is read from the context only, and
  no environment variable changes it.
\<close>

theorem config_sources:
  "dnsAccount (config ctx penv) =
     (if truthy (tryGetContext ctx ''dnsAccount'') then tryGetContext ctx ''dnsAccount''
      else getenv penv ''DNS_ACCOUNT_ID'') \<and>
   betaAccount (config ctx penv) =
     (if truthy (tryGetContext ctx ''betaAccount'') then tryGetContext ctx ''betaAccount''
      else getenv penv ''BETA_ACCOUNT_ID'') \<and>
   gammaAccount (config ctx penv) =
     (if truthy (tryGetContext ctx ''gammaAccount'') then tryGetContext ctx ''gammaAccount''
      else getenv penv ''GAMMA_ACCOUNT_ID'') \<and>
   prodAccount (config ctx penv) =
     (if truthy (tryGetContext ctx ''prodAccount'') then tryGetContext ctx ''prodAccount''
      else getenv penv ''PROD_ACCOUNT_ID'') \<and>
   Config.domainName (config ctx penv) =
     (if truthy (tryGetContext ctx ''domainName'') then tryGetContext ctx ''domainName''
      else getenv penv ''DOMAIN_NAME'') \<and>
   Config.region (config ctx penv) =
     (if truthy (tryGetContext ctx ''region'') then tryGetContext ctx ''region''
      else JStr ''us-east-1'') \<and>
   Config.region (config ctx penv) = Config.region (config ctx penv')"
  by (simp add: config_def js_or_def)

text \<open>
  The claim as first stated has the region supplied by the environment as well. With no
  region in the context and \<^verbatim>\<open>REGION\<close>, \<^verbatim>\<open>AWS_REGION\<close>, \<^verbatim>\<open>AWS_DEFAULT_REGION\<close> and
  \<^verbatim>\<open>CDK_DEFAULT_REGION\<close> all set to eu-west-1, the configured region is still us-east-1.
\<close>

theorem region_from_environment_counterexample:
  "getenv [''REGION'' \<mapsto> ''eu-west-1'', ''AWS_REGION'' \<mapsto> ''eu-west-1'',
           ''AWS_DEFAULT_REGION'' \<mapsto> ''eu-west-1'', ''CDK_DEFAULT_REGION'' \<mapsto> ''eu-west-1'']
     ''REGION'' = JStr ''eu-west-1'' \<and>
   tryGetContext Map.empty ''region'' = JUndefined \<and>
   Config.region (config Map.empty
     [''REGION'' \<mapsto> ''eu-west-1'', ''AWS_REGION'' \<mapsto> ''eu-west-1'',
      ''AWS_DEFAULT_REGION'' \<mapsto> ''eu-west-1'', ''CDK_DEFAULT_REGION'' \<mapsto> ''eu-west-1''])
     = JStr ''us-east-1'' \<and>
   JStr ''us-east-1'' \<noteq> JStr ''eu-west-1''"
  by (simp add: config_def js_or_def tryGetContext_def getenv_def)


section \<open>The website stacks\<close>






lemma dns_retains:
  "d \<in> set (dnsStacks (stacks (app (main ctx penv)))) \<Longrightarrow>
     map PublicHostedZone.removalPolicy (zones (children d)) = [Some RETAIN_ON_UPDATE_OR_DELETE]"
proof -
  assume "d \<in> set (dnsStacks (stacks (app (main ctx penv))))"
  from dns_stacks_cases [OF this] obtain sid p where "d = new_DnsStack sid p"
    by blast
  then show ?thesis by (simp add: dns_children_obs)
qed

lemma site_destroys:
  "s \<in> set (siteStacks (stacks (app (main ctx penv)))) \<Longrightarrow>
     map (\<lambda>b. (Bucket.removalPolicy b, autoDeleteObjects b)) (buckets (children s)) =
       [(DESTROY, True)]"
proof -
  assume "s \<in> set (siteStacks (stacks (app (main ctx penv))))"
  from site_stacks_cases [OF this]
  obtain sid p and t :: DnsStack where "s = addDependency (new_StaticWebsiteStack sid p) t"
    by blast
  then show ?thesis by (simp add: site_children_obs)
qed

text \<open>
  Claim C9. The hosted zone of a DNS stack is declared with the removal policy
  retain-on-update-or-delete, and the bucket of a website stack with the removal policy
  destroy and with automatic deletion of its objects; so it is for every DNS stack and every
  website stack of a run.
\<close>

theorem removal_policies_asymmetric:
  "zones (children (new_DnsStack sid dp)) = [hostedZone (new_DnsStack sid dp)] \<and>
   PublicHostedZone.removalPolicy (hostedZone (new_DnsStack sid dp)) =
     Some RETAIN_ON_UPDATE_OR_DELETE \<and>
   buckets (children (new_StaticWebsiteStack sid' sp)) = [bucket (new_StaticWebsiteStack sid' sp)] \<and>
   Bucket.removalPolicy (bucket (new_StaticWebsiteStack sid' sp)) = DESTROY \<and>
   autoDeleteObjects (bucket (new_StaticWebsiteStack sid' sp)) \<and>
   (\<forall>d \<in> set (dnsStacks (stacks (app (main ctx penv)))).
      map PublicHostedZone.removalPolicy (zones (children d)) =
        [Some RETAIN_ON_UPDATE_OR_DELETE]) \<and>
   (\<forall>s \<in> set (siteStacks (stacks (app (main ctx penv)))).
      map (\<lambda>b. (Bucket.removalPolicy b, autoDeleteObjects b)) (buckets (children s)) =
        [(DESTROY, True)])"
  using dns_retains [of _ ctx penv] site_destroys [of _ ctx penv]
  by (simp add: site_children_obs dns_children_obs)

text \<open>The DNS stack and the three website stacks of the example run.\<close>

theorem removal_policies_asymmetric_witness:
  "map stack_id (dnsStacks (stacks (app (main example_context example_env)))) = [''DnsStack''] \<and>
   map stack_id (siteStacks (stacks (app (main example_context example_env)))) =
     [''BetaStaticWebsiteStack'', ''GammaStaticWebsiteStack'', ''ProdStaticWebsiteStack''] \<and>
   list_all (\<lambda>d. map PublicHostedZone.removalPolicy (zones (children d)) =
        [Some RETAIN_ON_UPDATE_OR_DELETE])
     (dnsStacks (stacks (app (main example_context example_env)))) \<and>
   list_all (\<lambda>s. map (\<lambda>b. (Bucket.removalPolicy b, autoDeleteObjects b)) (buckets (children s)) =
        [(DESTROY, True)])
     (siteStacks (stacks (app (main example_context example_env))))"
proof -
  have "list_all (\<lambda>d. map PublicHostedZone.removalPolicy (zones (children d)) =
        [Some RETAIN_ON_UPDATE_OR_DELETE])
     (dnsStacks (stacks (app (main example_context example_env)))) \<and>
   list_all (\<lambda>s. map (\<lambda>b. (Bucket.removalPolicy b, autoDeleteObjects b)) (buckets (children s)) =
        [(DESTROY, True)])
     (siteStacks (stacks (app (main example_context example_env))))"
    using removal_policies_asymmetric [where ctx = example_context and penv = example_env]
    by (simp add: list_all_iff)
  moreover have "map stack_id (dnsStacks (stacks (app (main example_context example_env)))) = [''DnsStack'']"
    by (simp add: stacks_ok [OF example_thrown])
  moreover have "map stack_id (siteStacks (stacks (app (main example_context example_env)))) =
     [''BetaStaticWebsiteStack'', ''GammaStaticWebsiteStack'', ''ProdStaticWebsiteStack'']"
    by (simp add: site_stacks_ok [OF example_thrown])
  ultimately show ?thesis by blast
qed






end
